theory Spec2Isabelle
  imports Main
begin

section \<open>JavaScript values as the editor handles them\<close>

text \<open>
  Block configurations, labels and positions are plain JavaScript values: what
  \<^verbatim>\<open>JSON.parse\<close> produces, plus \<^verbatim>\<open>undefined\<close> for a property that is not there.
  Numbers are carried around and never computed on by the editor; the literals of the
  sources (100, 30, 200, 250) are integers, so \<open>Num\<close> holds an \<open>int\<close>.
  An object is an association list in property order.
\<close>

datatype jsval =
    Undefined
  | Null
  | Bool bool
  | Num int
  | Str string
  | Arr "jsval list"
  | Obj "(string \<times> jsval) list"

text \<open>Truthiness, as \<^verbatim>\<open>||\<close> and \<^verbatim>\<open>&&\<close> test it.\<close>

fun truthy :: "jsval \<Rightarrow> bool" where
  "truthy Undefined = False"
| "truthy Null = False"
| "truthy (Bool b) = b"
| "truthy (Num n) = (n \<noteq> 0)"
| "truthy (Str s) = (s \<noteq> [])"
| "truthy (Arr _) = True"
| "truthy (Obj _) = True"

text \<open>\<^verbatim>\<open>a || b\<close>\<close>

definition or_else :: "jsval \<Rightarrow> jsval \<Rightarrow> jsval" where
  "or_else a b = (if truthy a then a else b)"

text \<open>\<^verbatim>\<open>obj[key]\<close> and \<^verbatim>\<open>obj?.[key]\<close>: a missing property, and any property of
  \<^verbatim>\<open>undefined\<close> read through \<^verbatim>\<open>?.\<close>, is \<^verbatim>\<open>undefined\<close>.\<close>

fun get_prop :: "jsval \<Rightarrow> string \<Rightarrow> jsval" where
  "get_prop (Obj kvs) k = (case map_of kvs k of Some v \<Rightarrow> v | None \<Rightarrow> Undefined)"
| "get_prop _ k = Undefined"

text \<open>\<^verbatim>\<open>{ ...obj, [key]: value }\<close>: an existing property keeps its place, a new one
  goes last.\<close>

fun set_assoc :: "(string \<times> jsval) list \<Rightarrow> string \<Rightarrow> jsval \<Rightarrow> (string \<times> jsval) list" where
  "set_assoc [] k v = [(k, v)]"
| "set_assoc ((k', v') # kvs) k v =
     (if k' = k then (k, v) # kvs else (k', v') # set_assoc kvs k v)"

fun set_prop :: "jsval \<Rightarrow> string \<Rightarrow> jsval \<Rightarrow> jsval" where
  "set_prop (Obj kvs) k v = Obj (set_assoc kvs k v)"
| "set_prop _ k v = Obj [(k, v)]"

fun keys :: "jsval \<Rightarrow> string list" where
  "keys (Obj kvs) = map fst kvs"
| "keys _ = []"


section \<open>Block type metadata (nodes/CustomNodes.jsx)\<close>

text \<open>The icons are emoji and play no part in any dispatch; they are left out.\<close>

record block_meta =
  meta_type :: string
  meta_label :: string
  meta_description :: string
  defaultConfig :: jsval

definition BLOCK_TYPES :: "(string \<times> block_meta) list" where
  "BLOCK_TYPES =
    [(''input'',
        \<lparr>meta_type = ''input'', meta_label = ''Input'',
         meta_description = ''Define request schema'',
         defaultConfig = Obj
           [(''schema'', Obj [(''name'', Str ''string''), (''value'', Str ''number'')])]\<rparr>),
     (''db_query'',
        \<lparr>meta_type = ''db_query'', meta_label = ''Database Query'',
         meta_description = ''Query MongoDB collection'',
         defaultConfig = Obj
           [(''collection'', Str ''items''), (''operation'', Str ''find''),
            (''query'', Obj []), (''data'', Obj []), (''limit'', Num 100)]\<rparr>),
     (''api_call'',
        \<lparr>meta_type = ''api_call'', meta_label = ''API Call'',
         meta_description = ''Call external API'',
         defaultConfig = Obj
           [(''url'', Str ''https://api.example.com/data''), (''method'', Str ''GET''),
            (''headers'', Obj []), (''body'', Obj []), (''timeout'', Num 30)]\<rparr>),
     (''logic'',
        \<lparr>meta_type = ''logic'', meta_label = ''Logic'',
         meta_description = ''Conditional branching'',
         defaultConfig = Obj
           [(''condition'', Str ''true''),
            (''true_value'', Obj [(''result'', Str ''condition met'')]),
            (''false_value'', Obj [(''result'', Str ''condition not met'')])]\<rparr>),
     (''transform'',
        \<lparr>meta_type = ''transform'', meta_label = ''Transform'',
         meta_description = ''Transform data fields'',
         defaultConfig = Obj
           [(''operations'',
               Arr [Obj [(''type'', Str ''set''), (''field'', Str ''processed''),
                         (''value'', Str ''true'')]]),
            (''input_ref'', Null)]\<rparr>),
     (''output'',
        \<lparr>meta_type = ''output'', meta_label = ''Output'',
         meta_description = ''Define API response'',
         defaultConfig = Obj
           [(''status_code'', Num 200),
            (''body'', Obj [(''message'', Str ''Success''), (''data'', Str ''{{_last_output}}'')]),
            (''headers'', Obj [])]\<rparr>)]"

text \<open>The six block kinds the sources name.\<close>

definition block_kinds :: "string list" where
  "block_kinds = [''input'', ''db_query'', ''api_call'', ''logic'', ''transform'', ''output'']"

text \<open>\<^verbatim>\<open>BLOCK_TYPES[t]\<close>\<close>

definition block_type_meta :: "string \<Rightarrow> block_meta option" where
  "block_type_meta t = map_of BLOCK_TYPES t"






section \<open>Configuration forms (ConfigPanel.jsx)\<close>

text \<open>
  A form is the list of its fields in display order. Each field edits one key of the
  block's config through \<^verbatim>\<open>updateField\<close>; the widget says which values it can write.
\<close>

datatype widget =
    TextInput
  | TextOrNull
  | NumberInput int
  | SelectOf "string list"
  | JsonTextarea

record form_field =
  field_label :: string
  field_key :: string
  field_widget :: widget

text \<open>\<^verbatim>\<open>[...].includes(config.operation)\<close>\<close>

definition array_includes :: "string list \<Rightarrow> jsval \<Rightarrow> bool" where
  "array_includes xs v = (v \<in> set (map Str xs))"


definition db_operation_options :: "string list" where
  "db_operation_options = [''find'', ''find_one'', ''insert'', ''update'', ''delete'']"

definition renderDbQueryConfig :: "jsval \<Rightarrow> form_field list" where
  "renderDbQueryConfig config =
    [\<lparr>field_label = ''Collection Name'', field_key = ''collection'', field_widget = TextInput\<rparr>,
     \<lparr>field_label = ''Operation'', field_key = ''operation'',
      field_widget = SelectOf db_operation_options\<rparr>,
     \<lparr>field_label = ''Query Filter (JSON)'', field_key = ''query'',
      field_widget = JsonTextarea\<rparr>]
    @ (if array_includes [''insert'', ''update''] (get_prop config ''operation'')
       then [\<lparr>field_label = ''Data (JSON)'', field_key = ''data'',
              field_widget = JsonTextarea\<rparr>]
       else [])
    @ (if array_includes [''find''] (get_prop config ''operation'')
       then [\<lparr>field_label = ''Limit'', field_key = ''limit'', field_widget = NumberInput 100\<rparr>]
       else [])"








text \<open>\<^verbatim>\<open>updateField(field, value)\<close>: the config with one key replaced.\<close>

definition updateField :: "jsval \<Rightarrow> string \<Rightarrow> jsval \<Rightarrow> jsval" where
  "updateField config field v = set_prop config field v"


subsection \<open>The JSON helpers\<close>

text \<open>
  The two JSON helpers of the panel. \<^verbatim>\<open>JSON.parse\<close> and \<^verbatim>\<open>JSON.stringify\<close> are
  built-ins of the language, so they are not defined here: \<open>JSON_parse\<close> is a parameter
  that either returns a value or throws, and the text \<^verbatim>\<open>JSON.stringify(val, null, 2)\<close>
  produces is a parameter as well. What is fixed is what the language fixes and the
  helpers depend on: \<^verbatim>\<open>JSON.stringify(undefined)\<close> returns \<^verbatim>\<open>undefined\<close> without
  throwing, and on every other value of \<open>jsval\<close> it returns text (the values it throws
  on, BigInts and cyclic objects, are not values of \<open>jsval\<close>).
\<close>

datatype 'a outcome = Returns 'a | Throws

definition JSON_stringify :: "(jsval \<Rightarrow> string) \<Rightarrow> jsval \<Rightarrow> jsval outcome" where
  "JSON_stringify text val =
    (case val of Undefined \<Rightarrow> Returns Undefined | _ \<Rightarrow> Returns (Str (text val)))"

text \<open>\<^verbatim>\<open>try { return JSON.parse(str); } catch { return str; }\<close>\<close>

definition parseJSON :: "(string \<Rightarrow> jsval outcome) \<Rightarrow> string \<Rightarrow> jsval" where
  "parseJSON JSON_parse str = (case JSON_parse str of Returns v \<Rightarrow> v | Throws \<Rightarrow> Str str)"

text \<open>\<^verbatim>\<open>if (typeof val === 'string') return val;
  try { return JSON.stringify(val, null, 2); } catch { return String(val); }\<close>
  The second parameter is \<^verbatim>\<open>String(val)\<close>, used by the catch branch.\<close>

definition toJSON :: "(jsval \<Rightarrow> string) \<Rightarrow> (jsval \<Rightarrow> string) \<Rightarrow> jsval \<Rightarrow> jsval" where
  "toJSON text String_of val =
    (case val of
       Str s \<Rightarrow> Str s
     | _ \<Rightarrow> (case JSON_stringify text val of
              Returns r \<Rightarrow> r
            | Throws \<Rightarrow> Str (String_of val)))"

text \<open>\<^verbatim>\<open>typeof v === 'string'\<close>\<close>

fun is_string :: "jsval \<Rightarrow> bool" where
  "is_string (Str _) = True"
| "is_string _ = False"


subsection \<open>What the fields write, and the texts shown with them\<close>

text \<open>
  What a widget's \<^verbatim>\<open>onChange\<close> can hand to \<^verbatim>\<open>updateField\<close>: a text input writes the
  typed string (\<^verbatim>\<open>e.target.value\<close>), the input reference writes the string or
  \<^verbatim>\<open>null\<close> when it is empty, a number input writes \<^verbatim>\<open>parseInt(...) || dflt\<close> (an
  integer other than 0), a select writes the value of one of its options, and a JSON
  textarea writes whatever \<^verbatim>\<open>parseJSON\<close> returns.
\<close>

fun widget_writes :: "widget \<Rightarrow> jsval \<Rightarrow> bool" where
  "widget_writes TextInput v = is_string v"
| "widget_writes TextOrNull v = (v = Null \<or> (is_string v \<and> truthy v))"
| "widget_writes (NumberInput dflt) v = (case v of Num n \<Rightarrow> n \<noteq> 0 | _ \<Rightarrow> False)"
| "widget_writes (SelectOf opts) v = array_includes opts v"
| "widget_writes JsonTextarea v = (v \<noteq> Undefined)"

text \<open>The field of a form that edits a given key.\<close>

definition field_of :: "form_field list \<Rightarrow> string \<Rightarrow> form_field option" where
  "field_of form k = find (\<lambda>f. field_key f = k) form"









section \<open>The shapes the specification gives, for comparison with the editor's data\<close>













section \<open>The canvas (WorkflowEditor.jsx)\<close>

text \<open>
  The persisted format: blocks and connections. Ids and types are strings; label,
  position, config and the handles may be missing (\<open>Undefined\<close>) or hold any value.
\<close>

record block =
  block_id :: string
  block_type :: string
  block_label :: jsval
  block_position :: jsval
  block_config :: jsval

record connection =
  conn_id :: jsval
  source_block_id :: string
  target_block_id :: string
  source_handle :: jsval
  target_handle :: jsval

text \<open>The canvas format: React Flow nodes and edges.\<close>

record node_data =
  data_type :: string
  data_label :: jsval
  data_config :: jsval

record node =
  node_id :: string
  node_type :: string
  node_position :: jsval
  node_data :: node_data

record edge =
  edge_id :: jsval
  source :: string
  target :: string
  sourceHandle :: jsval
  targetHandle :: jsval
  animated :: bool
  style :: jsval
  markerEnd :: jsval

text \<open>\<^verbatim>\<open>BLOCK_TYPES[t]?.label\<close> and \<^verbatim>\<open>BLOCK_TYPES[t]?.defaultConfig\<close>\<close>

definition type_label :: "string \<Rightarrow> jsval" where
  "type_label t = (case block_type_meta t of None \<Rightarrow> Undefined | Some m \<Rightarrow> Str (meta_label m))"

definition type_defaultConfig :: "string \<Rightarrow> jsval" where
  "type_defaultConfig t = (case block_type_meta t of None \<Rightarrow> Undefined | Some m \<Rightarrow> defaultConfig m)"

definition blockToNode :: "block \<Rightarrow> node" where
  "blockToNode b =
    \<lparr>node_id = block_id b,
     node_type = block_type b,
     node_position = or_else (block_position b) (Obj [(''x'', Num 250), (''y'', Num 100)]),
     node_data =
       \<lparr>data_type = block_type b,
        data_label = or_else (or_else (block_label b) (type_label (block_type b))) (Str ''Block''),
        data_config =
          or_else (or_else (block_config b) (type_defaultConfig (block_type b))) (Obj [])\<rparr>\<rparr>"

definition connToEdge :: "connection \<Rightarrow> edge" where
  "connToEdge conn =
    \<lparr>edge_id = or_else (conn_id conn)
        (Str (''edge_'' @ source_block_id conn @ ''_'' @ target_block_id conn)),
     source = source_block_id conn,
     target = target_block_id conn,
     sourceHandle = or_else (source_handle conn) (Str ''output''),
     targetHandle = or_else (target_handle conn) (Str ''input''),
     animated = True,
     style = Obj [(''stroke'', Str ''#6366f1''), (''strokeWidth'', Num 2)],
     markerEnd = Obj [(''type'', Str ''arrowclosed''), (''color'', Str ''#6366f1'')]\<rparr>"

text \<open>\<^verbatim>\<open>node.data.type || node.type\<close> on strings: the empty string is falsy.\<close>

definition nodesToBlocks :: "node list \<Rightarrow> block list" where
  "nodesToBlocks rfNodes =
    map (\<lambda>node.
      \<lparr>block_id = node_id node,
       block_type = (if data_type (node_data node) \<noteq> [] then data_type (node_data node)
                     else node_type node),
       block_label = data_label (node_data node),
       block_position = node_position node,
       block_config = data_config (node_data node)\<rparr>) rfNodes"

definition edgesToConnections :: "edge list \<Rightarrow> connection list" where
  "edgesToConnections rfEdges =
    map (\<lambda>edge.
      \<lparr>conn_id = edge_id edge,
       source_block_id = source edge,
       target_block_id = target edge,
       source_handle = or_else (sourceHandle edge) (Str ''output''),
       target_handle = or_else (targetHandle edge) (Str ''input'')\<rparr>) rfEdges"

text \<open>The editor's React state: the nodes, the edges and the selected node.\<close>

record editor =
  nodes :: "node list"
  edges :: "edge list"
  selectedNode :: "node option"

text \<open>
  The update both branches of \<^verbatim>\<open>onUpdateConfig\<close> perform on one node:
  \<^verbatim>\<open>updatedData = { ...node.data, config: newConfig }\<close>, the label overwritten when
  \<^verbatim>\<open>newLabel !== undefined\<close>, then \<^verbatim>\<open>{ ...node, data: updatedData }\<close>.
\<close>

definition with_updatedData :: "jsval \<Rightarrow> jsval \<Rightarrow> node \<Rightarrow> node" where
  "with_updatedData newConfig newLabel node =
    (let updatedData = (node_data node)\<lparr>data_config := newConfig\<rparr>;
         updatedData' = (if newLabel \<noteq> Undefined then updatedData\<lparr>data_label := newLabel\<rparr>
                         else updatedData)
     in node\<lparr>node_data := updatedData'\<rparr>)"

definition onUpdateConfig :: "string \<Rightarrow> jsval \<Rightarrow> jsval \<Rightarrow> editor \<Rightarrow> editor" where
  "onUpdateConfig nodeId newConfig newLabel st =
    st\<lparr>nodes :=
         map (\<lambda>node. if node_id node = nodeId then with_updatedData newConfig newLabel node
                      else node) (nodes st),
       selectedNode :=
         (case selectedNode st of
            None \<Rightarrow> None
          | Some prev \<Rightarrow>
              if node_id prev = nodeId then Some (with_updatedData newConfig newLabel prev)
              else Some prev)\<rparr>"




section \<open>The editor page (pages/EditorPage.jsx)\<close>

text \<open>
  The page holds the loaded workflow in its state. Each handler awaits one call of the
  API client and changes the state only when the call resolves; a rejected call leaves
  the state as it was (the handler only shows a toast).
\<close>

record workflow =
  wf_name :: string
  wf_blocks :: "block list"
  wf_connections :: "connection list"
  wf_status :: string

datatype api_call = Resolved | Rejected

definition handleSave :: "api_call \<Rightarrow> block list \<Rightarrow> connection list \<Rightarrow> workflow \<Rightarrow> workflow" where
  "handleSave res blocks connections prev =
    (case res of
       Resolved \<Rightarrow> prev\<lparr>wf_blocks := blocks, wf_connections := connections\<rparr>
     | Rejected \<Rightarrow> prev)"

definition handleDeploy :: "api_call \<Rightarrow> workflow \<Rightarrow> workflow" where
  "handleDeploy res prev =
    (case res of Resolved \<Rightarrow> prev\<lparr>wf_status := ''deployed''\<rparr> | Rejected \<Rightarrow> prev)"

definition handleUndeploy :: "api_call \<Rightarrow> workflow \<Rightarrow> workflow" where
  "handleUndeploy res prev =
    (case res of Resolved \<Rightarrow> prev\<lparr>wf_status := ''draft''\<rparr> | Rejected \<Rightarrow> prev)"

text \<open>The operations of the page on a loaded workflow, and a run of them.\<close>

datatype page_action =
    Save api_call "block list" "connection list"
  | Deploy api_call
  | Undeploy api_call

fun page_step :: "workflow \<Rightarrow> page_action \<Rightarrow> workflow" where
  "page_step w (Save res blocks connections) = handleSave res blocks connections w"
| "page_step w (Deploy res) = handleDeploy res w"
| "page_step w (Undeploy res) = handleUndeploy res w"

definition page_run :: "workflow \<Rightarrow> page_action list \<Rightarrow> workflow" where
  "page_run w actions = foldl page_step w actions"

definition status_valid :: "workflow \<Rightarrow> bool" where
  "status_valid w = (wf_status w = ''draft'' \<or> wf_status w = ''deployed'')"


section \<open>Concrete editor data used as examples\<close>

definition example_editor :: editor where
  "example_editor =
    \<lparr>nodes =
       [\<lparr>node_id = ''a'', node_type = ''logic'',
         node_position = Obj [(''x'', Num 10), (''y'', Num 20)],
         node_data = \<lparr>data_type = ''logic'', data_label = Str ''Check age'',
                      data_config = Obj [(''condition'', Str ''true'')]\<rparr>\<rparr>,
        \<lparr>node_id = ''b'', node_type = ''output'',
         node_position = Obj [(''x'', Num 10), (''y'', Num 90)],
         node_data = \<lparr>data_type = ''output'', data_label = Str ''Reply'',
                      data_config = Obj [(''status_code'', Num 200)]\<rparr>\<rparr>],
     edges = [],
     selectedNode = None\<rparr>"

definition example_block :: block where
  "example_block =
    \<lparr>block_id = ''block_1'', block_type = ''db_query'', block_label = Str ''Load users'',
     block_position = Obj [(''x'', Num 40), (''y'', Num 60)],
     block_config = Obj [(''collection'', Str ''users'')]\<rparr>"

definition example_connection :: connection where
  "example_connection =
    \<lparr>conn_id = Str ''edge_block_1_block_2'', source_block_id = ''block_1'',
     target_block_id = ''block_2'', source_handle = Undefined, target_handle = Undefined\<rparr>"

text \<open>A block whose label the user has cleared in the panel: the label is there, and
  it is the empty string.\<close>

definition unlabelled_block :: block where
  "unlabelled_block =
    \<lparr>block_id = ''block_1'', block_type = ''input'', block_label = Str [],
     block_position = Obj [(''x'', Num 40), (''y'', Num 60)],
     block_config = Obj [(''schema'', Obj [])]\<rparr>"

text \<open>Id, source and target of a connection.\<close>

definition conn_ends :: "connection \<Rightarrow> jsval \<times> string \<times> string" where
  "conn_ends c = (conn_id c, source_block_id c, target_block_id c)"


section \<open>The graph planner\<close>

text \<open>
  The planner belongs to the execution engine (\<^verbatim>\<open>backend/workflow_engine.py\<close>), which is
  not among the sources: the editor only produces the blocks and connections it
  consumes. Every definition of the planner below is therefore written from the
  specification's section 4.1, over the persisted \<open>block\<close> and \<open>connection\<close> records
  above. The respond kind of the specification is the editor's type \<open>output\<close>.
\<close>

text \<open>Modelled from the spec: the structural errors of \<open>plan\<close>, which is missing from the
  sources: \<open>GraphError\<close> with the kinds Cycle (naming one offending block),
  DanglingEdge and NoResponse.\<close>

datatype graph_error = Cycle string | DanglingEdge | NoResponse

text \<open>Modelled from the spec: the test for a respond-kind block, used by the missing
  \<open>plan\<close>.\<close>

definition is_respond :: "block \<Rightarrow> bool" where
  "is_respond b = (block_type b = ''output'')"

text \<open>Modelled from the spec: the adjacency representation the missing \<open>plan\<close> builds,
  the successors of a block, one entry per connection.\<close>

definition adjacency :: "connection list \<Rightarrow> string \<Rightarrow> string list" where
  "adjacency conns u = map target_block_id (filter (\<lambda>c. source_block_id c = u) conns)"

text \<open>Modelled from the spec: the in-degree count per block the missing \<open>plan\<close> starts
  from, the number of connections that target the block.\<close>

definition in_degree :: "connection list \<Rightarrow> string \<Rightarrow> nat" where
  "in_degree conns v = length (filter (\<lambda>c. target_block_id c = v) conns)"

text \<open>Modelled from the spec: one decrement of a block's in-degree in the missing
  \<open>plan\<close>.\<close>

definition decrement :: "(string \<Rightarrow> nat) \<Rightarrow> string \<Rightarrow> (string \<Rightarrow> nat)" where
  "decrement indeg v = indeg (v := indeg v - 1)"

text \<open>Modelled from the spec: the step of the missing \<open>plan\<close> that, for every block of
  the level just collected, decrements the in-degree of each of its successors.\<close>

definition release :: "connection list \<Rightarrow> string list \<Rightarrow> (string \<Rightarrow> nat) \<Rightarrow> (string \<Rightarrow> nat)" where
  "release conns level indeg =
    fold (\<lambda>u d. fold (\<lambda>v d'. decrement d' v) (adjacency conns u) d) level indeg"

text \<open>
  Modelled from the spec: the loop of the missing \<open>plan\<close>, Kahn's algorithm with all
  blocks of in-degree zero of a round taken as one level. While blocks remain, the
  blocks of in-degree zero among them form the next level; their successors'
  in-degrees are decremented and the loop goes on with the other blocks. When blocks
  remain and none has in-degree zero, the graph has a cycle, and the error names one of
  the remaining blocks.
\<close>

function levels_from ::
  "connection list \<Rightarrow> string list \<Rightarrow> (string \<Rightarrow> nat) \<Rightarrow> graph_error + string list list" where
  "levels_from conns remaining indeg =
    (if remaining = [] then Inr []
     else if filter (\<lambda>v. indeg v = 0) remaining = [] then Inl (Cycle (hd remaining))
     else (case levels_from conns (filter (\<lambda>v. indeg v \<noteq> 0) remaining)
                  (release conns (filter (\<lambda>v. indeg v = 0) remaining) indeg) of
             Inl e \<Rightarrow> Inl e
           | Inr ls \<Rightarrow> Inr (filter (\<lambda>v. indeg v = 0) remaining # ls)))"
  by pat_completeness auto
termination
proof (relation "measure (\<lambda>(conns, remaining, indeg). length remaining)")
  show "wf (measure (\<lambda>(conns, remaining, indeg). length remaining))"
    by simp
next
  fix conns :: "connection list" and remaining :: "string list" and indeg :: "string \<Rightarrow> nat"
  assume "remaining \<noteq> []" and ready: "filter (\<lambda>v. indeg v = 0) remaining \<noteq> []"
  from ready obtain v where "v \<in> set remaining" "indeg v = 0"
    by (auto simp: filter_empty_conv)
  then have "length (filter (\<lambda>v. indeg v \<noteq> 0) remaining) < length remaining"
    by (simp add: length_filter_less [of v])
  then show "((conns, filter (\<lambda>v. indeg v \<noteq> 0) remaining,
               release conns (filter (\<lambda>v. indeg v = 0) remaining) indeg),
              (conns, remaining, indeg))
             \<in> measure (\<lambda>(conns, remaining, indeg). length remaining)"
    by simp
qed

declare levels_from.simps [simp del]

text \<open>Modelled from the spec: the dangling-reference test of the missing \<open>plan\<close>, a
  connection that names a block id absent from the block list.\<close>

definition dangling :: "string list \<Rightarrow> connection \<Rightarrow> bool" where
  "dangling ids c = (source_block_id c \<notin> set ids \<or> target_block_id c \<notin> set ids)"

text \<open>Modelled from the spec: \<open>plan(blocks, connections)\<close>, missing from the sources. It
  returns the ordered levels or a structural error: DanglingEdge when a connection names
  an absent block, NoResponse when the block set has no respond-kind block, Cycle when
  the loop gets stuck.\<close>

definition plan :: "block list \<Rightarrow> connection list \<Rightarrow> graph_error + string list list" where
  "plan blocks connections =
    (if list_ex (dangling (map block_id blocks)) connections then Inl DanglingEdge
     else if \<not> list_ex is_respond blocks then Inl NoResponse
     else levels_from connections (map block_id blocks) (in_degree connections))"

text \<open>The notions the planner's properties are stated with: the index of the level
  that holds a block, the edge relation of the connections, and the number of
  connections into a block from a given set of blocks.\<close>

fun level_index :: "string list list \<Rightarrow> string \<Rightarrow> nat option" where
  "level_index [] v = None"
| "level_index (l # ls) v = (if v \<in> set l then Some 0 else map_option Suc (level_index ls v))"

definition edge_rel :: "connection list \<Rightarrow> (string \<times> string) set" where
  "edge_rel conns = set (map (\<lambda>c. (source_block_id c, target_block_id c)) conns)"

definition pending_in_degree :: "connection list \<Rightarrow> string set \<Rightarrow> string \<Rightarrow> nat" where
  "pending_in_degree conns R v =
    length (filter (\<lambda>c. target_block_id c = v \<and> source_block_id c \<in> R) conns)"

text \<open>The example graph of the README: Input, then Database Query and API Call side
  by side, then Transform, then Output.\<close>

definition plain_block :: "string \<Rightarrow> string \<Rightarrow> block" where
  "plain_block i t = \<lparr>block_id = i, block_type = t, block_label = Undefined,
     block_position = Undefined, block_config = Undefined\<rparr>"

definition plain_connection :: "string \<Rightarrow> string \<Rightarrow> connection" where
  "plain_connection s t = \<lparr>conn_id = Undefined, source_block_id = s, target_block_id = t,
     source_handle = Undefined, target_handle = Undefined\<rparr>"

definition readme_blocks :: "block list" where
  "readme_blocks =
    [plain_block ''in'' ''input'', plain_block ''db'' ''db_query'',
     plain_block ''api'' ''api_call'', plain_block ''tr'' ''transform'',
     plain_block ''out'' ''output'']"

definition readme_connections :: "connection list" where
  "readme_connections =
    [plain_connection ''in'' ''db'', plain_connection ''in'' ''api'',
     plain_connection ''db'' ''tr'', plain_connection ''api'' ''tr'',
     plain_connection ''tr'' ''out'']"


section \<open>The block kinds are a closed set of six\<close>



lemma distinct_block_kinds: "distinct block_kinds"
  by (simp add: block_kinds_def)






section \<open>The configuration forms and the default configurations\<close>

lemmas default_config_simps =
  type_defaultConfig_def block_type_meta_def BLOCK_TYPES_def

lemma map_of_set_assoc: "map_of (set_assoc kvs k v) k = Some v"
  by (induction kvs) auto

lemma get_prop_updateField: "get_prop (updateField config k v) k = v"
  by (cases config) (simp_all add: updateField_def map_of_set_assoc)

text \<open>
  Claim C3. The operation field of the datastore query form is a select whose options
  are exactly find, find_one, insert, update and delete, so these five are the values
  it can write, and what it writes is what the config then holds as its operation. The
  configuration has the keys collection, operation, query, data and limit; the form
  always shows collection, operation and query, shows data only for insert and update,
  and shows limit only for find.
\<close>

theorem db_query_config_shape:
  "map_option field_widget (field_of (renderDbQueryConfig config) ''operation'')
     = Some (SelectOf db_operation_options)
   \<and> get_prop (updateField config ''operation'' v) ''operation'' = v
   \<and> {v. widget_writes (SelectOf db_operation_options) v}
     = {Str ''find'', Str ''find_one'', Str ''insert'', Str ''update'', Str ''delete''}
   \<and> distinct db_operation_options \<and> length db_operation_options = 5
   \<and> keys (type_defaultConfig ''db_query'')
     = [''collection'', ''operation'', ''query'', ''data'', ''limit'']
   \<and> get_prop (type_defaultConfig ''db_query'') ''operation'' = Str ''find''
   \<and> map field_key (renderDbQueryConfig config)
     = [''collection'', ''operation'', ''query'']
       @ (if get_prop config ''operation'' \<in> {Str ''insert'', Str ''update''} then [''data''] else [])
       @ (if get_prop config ''operation'' = Str ''find'' then [''limit''] else [])"
  by (auto simp: renderDbQueryConfig_def field_of_def db_operation_options_def
      array_includes_def default_config_simps get_prop_updateField)








section \<open>The workflow status on the editor page\<close>

lemma page_step_status_valid: "status_valid w \<Longrightarrow> status_valid (page_step w a)"
  by (cases a) (auto simp: status_valid_def handleSave_def handleDeploy_def handleUndeploy_def
      split: api_call.splits)

lemma page_run_status_valid: "status_valid w \<Longrightarrow> status_valid (foldl page_step w actions)"
  by (induction actions arbitrary: w) (simp_all add: page_step_status_valid)

text \<open>
  Claim C7. A loaded workflow whose status is draft or deployed keeps a status of draft
  or deployed through every run of the page's operations. A deploy that succeeds sets
  the status to deployed, an undeploy that succeeds sets it to draft, and a failed
  deploy or undeploy and every save leave the status as it was.
\<close>

theorem status_draft_or_deployed:
  assumes "status_valid w"
  shows "status_valid (page_run w actions)
         \<and> wf_status (handleDeploy Resolved w) = ''deployed''
         \<and> wf_status (handleUndeploy Resolved w) = ''draft''
         \<and> wf_status (handleDeploy Rejected w) = wf_status w
         \<and> wf_status (handleUndeploy Rejected w) = wf_status w
         \<and> wf_status (handleSave res blocks connections w) = wf_status w"
  using assms
  by (simp add: page_run_def page_run_status_valid handleDeploy_def handleUndeploy_def
      handleSave_def split: api_call.splits)

theorem status_draft_or_deployed_witness:
  "status_valid \<lparr>wf_name = ''orders'', wf_blocks = [], wf_connections = [], wf_status = ''draft''\<rparr>
   \<and> wf_status (page_run
        \<lparr>wf_name = ''orders'', wf_blocks = [], wf_connections = [], wf_status = ''draft''\<rparr>
        [Deploy Resolved, Save Resolved [] [], Undeploy Rejected]) = ''deployed''
   \<and> status_valid (page_run
        \<lparr>wf_name = ''orders'', wf_blocks = [], wf_connections = [], wf_status = ''draft''\<rparr>
        [Deploy Resolved, Save Resolved [] [], Undeploy Rejected])"
proof -
  let ?w = "\<lparr>wf_name = ''orders'', wf_blocks = [], wf_connections = [], wf_status = ''draft''\<rparr>"
  let ?acts = "[Deploy Resolved, Save Resolved [] [], Undeploy Rejected]"
  have valid: "status_valid ?w"
    by (simp add: status_valid_def)
  have run: "wf_status (page_run ?w ?acts) = ''deployed''"
    by (simp add: page_run_def handleDeploy_def handleSave_def handleUndeploy_def)
  from status_draft_or_deployed [OF valid, of ?acts]
  have "status_valid (page_run ?w ?acts)"
    by simp
  with valid run show ?thesis by simp
qed


section \<open>Between the persisted format and the canvas format\<close>

lemma or_else_truthy: "truthy a \<Longrightarrow> or_else a b = a"
  by (simp add: or_else_def)

text \<open>
  Claim C8, as stated, fails: a block whose label is present but empty does not come
  back with its label. \<open>blockToNode\<close> replaces the empty label by the label of the
  block's type, here \<open>Input\<close>, and \<open>nodesToBlocks\<close> writes that one back.
\<close>

theorem canvas_roundtrip_counterexample:
  "block_label unlabelled_block = Str []
   \<and> block_label unlabelled_block \<noteq> Undefined
   \<and> block_position unlabelled_block \<noteq> Undefined
   \<and> block_config unlabelled_block \<noteq> Undefined
   \<and> block_label (hd (nodesToBlocks [blockToNode unlabelled_block])) = Str ''Input''
   \<and> nodesToBlocks [blockToNode unlabelled_block] \<noteq> [unlabelled_block]"
proof -
  have relabelled: "block_label (hd (nodesToBlocks [blockToNode unlabelled_block])) = Str ''Input''"
    by (simp add: unlabelled_block_def nodesToBlocks_def blockToNode_def or_else_def
        type_label_def block_type_meta_def BLOCK_TYPES_def)
  have "nodesToBlocks [blockToNode unlabelled_block] \<noteq> [unlabelled_block]"
  proof
    assume "nodesToBlocks [blockToNode unlabelled_block] = [unlabelled_block]"
    with relabelled have "block_label unlabelled_block = Str ''Input''"
      by simp
    then show False
      by (simp add: unlabelled_block_def)
  qed
  with relabelled show ?thesis
    by (simp add: unlabelled_block_def)
qed

text \<open>
  Claim C8, amended. For blocks whose label, position and config are truthy (a label
  that is a non-empty string, a position and a config that are objects),
  \<open>nodesToBlocks\<close> after \<open>blockToNode\<close> returns the blocks unchanged: same id, type,
  label, position and config. For connections whose id is truthy,
  \<open>edgesToConnections\<close> after \<open>connToEdge\<close> keeps id, source_block_id and
  target_block_id.
\<close>

theorem canvas_roundtrip:
  fixes bs :: "block list" and cs :: "connection list"
  assumes "\<forall>b \<in> set bs. truthy (block_label b) \<and> truthy (block_position b) \<and> truthy (block_config b)"
    and "\<forall>c \<in> set cs. truthy (conn_id c)"
  shows "nodesToBlocks (map blockToNode bs) = bs
       \<and> map conn_ends (edgesToConnections (map connToEdge cs)) = map conn_ends cs"
proof
  from assms(1) show "nodesToBlocks (map blockToNode bs) = bs"
    by (induction bs) (simp_all add: nodesToBlocks_def blockToNode_def or_else_truthy)
next
  from assms(2) show "map conn_ends (edgesToConnections (map connToEdge cs)) = map conn_ends cs"
    by (induction cs)
      (simp_all add: edgesToConnections_def connToEdge_def or_else_truthy conn_ends_def)
qed

theorem canvas_roundtrip_witness:
  "nodesToBlocks (map blockToNode [example_block]) = [example_block]
   \<and> map conn_ends (edgesToConnections (map connToEdge [example_connection]))
     = map conn_ends [example_connection]"
proof -
  have bs: "\<forall>b \<in> set [example_block].
      truthy (block_label b) \<and> truthy (block_position b) \<and> truthy (block_config b)"
    by (simp add: example_block_def)
  have cs: "\<forall>c \<in> set [example_connection]. truthy (conn_id c)"
    by (simp add: example_connection_def)
  from canvas_roundtrip [OF bs cs] show ?thesis .
qed


section \<open>Configuration updates touch one node's data only\<close>

text \<open>
  Claim C9. \<open>onUpdateConfig\<close> leaves the edge list and the number of nodes as they are.
  At every position of the node list, id, type, position and the data's type are
  unchanged; a node with another id is unchanged altogether; a node with the given id
  gets the new config, and the new label when one is given, else it keeps its label.
\<close>

theorem onUpdateConfig_frame:
  "edges (onUpdateConfig nodeId newConfig newLabel st) = edges st
   \<and> length (nodes (onUpdateConfig nodeId newConfig newLabel st)) = length (nodes st)
   \<and> (\<forall>k < length (nodes st).
        let old = nodes st ! k; new = nodes (onUpdateConfig nodeId newConfig newLabel st) ! k in
          node_id new = node_id old \<and> node_type new = node_type old
          \<and> node_position new = node_position old
          \<and> data_type (node_data new) = data_type (node_data old)
          \<and> (node_id old \<noteq> nodeId \<longrightarrow> new = old)
          \<and> (node_id old = nodeId \<longrightarrow>
                data_config (node_data new) = newConfig
                \<and> data_label (node_data new)
                    = (if newLabel \<noteq> Undefined then newLabel else data_label (node_data old))))"
  by (simp add: onUpdateConfig_def with_updatedData_def Let_def)

theorem onUpdateConfig_frame_witness:
  "nodes (onUpdateConfig ''a'' (Obj [(''condition'', Str ''1 < 2'')]) Undefined example_editor) ! 1
     = nodes example_editor ! 1
   \<and> data_config (node_data
        (nodes (onUpdateConfig ''a'' (Obj [(''condition'', Str ''1 < 2'')]) Undefined example_editor) ! 0))
     = Obj [(''condition'', Str ''1 < 2'')]
   \<and> data_label (node_data
        (nodes (onUpdateConfig ''a'' (Obj [(''condition'', Str ''1 < 2'')]) Undefined example_editor) ! 0))
     = Str ''Check age''
   \<and> edges (onUpdateConfig ''a'' (Obj [(''condition'', Str ''1 < 2'')]) Undefined example_editor)
     = edges example_editor"
proof -
  let ?st' = "onUpdateConfig ''a'' (Obj [(''condition'', Str ''1 < 2'')]) Undefined example_editor"
  note frame = onUpdateConfig_frame
    [of "''a''" "Obj [(''condition'', Str ''1 < 2'')]" Undefined example_editor]
  have len: "length (nodes example_editor) = 2"
    by (simp add: example_editor_def)
  have ids: "node_id (nodes example_editor ! 0) = ''a''" "node_id (nodes example_editor ! 1) = ''b''"
    by (simp_all add: example_editor_def)
  have lab: "data_label (node_data (nodes example_editor ! 0)) = Str ''Check age''"
    by (simp add: example_editor_def)
  from frame have all: "\<forall>k < length (nodes example_editor).
        let old = nodes example_editor ! k; new = nodes ?st' ! k in
          node_id new = node_id old \<and> node_type new = node_type old
          \<and> node_position new = node_position old
          \<and> data_type (node_data new) = data_type (node_data old)
          \<and> (node_id old \<noteq> ''a'' \<longrightarrow> new = old)
          \<and> (node_id old = ''a'' \<longrightarrow>
                data_config (node_data new) = Obj [(''condition'', Str ''1 < 2'')]
                \<and> data_label (node_data new)
                    = (if Undefined \<noteq> Undefined then Undefined else data_label (node_data old)))"
    by blast
  from all len ids have one: "nodes ?st' ! 1 = nodes example_editor ! 1"
    by (auto simp: Let_def dest!: spec [of _ 1])
  from all len ids lab have zero:
    "data_config (node_data (nodes ?st' ! 0)) = Obj [(''condition'', Str ''1 < 2'')]"
    "data_label (node_data (nodes ?st' ! 0)) = Str ''Check age''"
    by (auto simp: Let_def dest!: spec [of _ 0])
  from frame have "edges ?st' = edges example_editor" by blast
  with one zero show ?thesis by simp
qed


section \<open>The JSON helpers of the panel\<close>

lemma parseJSON_total:
  "parseJSON JSON_parse str = (case JSON_parse str of Returns v \<Rightarrow> v | Throws \<Rightarrow> Str str)"
  by (simp add: parseJSON_def)

lemma toJSON_string_otherwise: "val \<noteq> Undefined \<Longrightarrow> is_string (toJSON text String_of val)"
  by (cases val) (simp_all add: toJSON_def JSON_stringify_def)

text \<open>
  Claim C10 says that \<open>toJSON\<close> returns a string for every value. On \<open>undefined\<close>, the
  value of a configuration key that is not there, it does not: \<open>JSON.stringify\<close> returns
  \<open>undefined\<close> without throwing, the catch branch is not entered, and \<open>toJSON\<close> returns
  \<open>undefined\<close>.
\<close>

theorem toJSON_undefined:
  "toJSON text String_of Undefined = Undefined \<and> \<not> is_string (toJSON text String_of Undefined)"
  by (simp add: toJSON_def JSON_stringify_def)


section \<open>The planner orders every acyclic graph into levels\<close>

lemma length_filter_disjoint_or:
  "(\<And>x. x \<in> set xs \<Longrightarrow> \<not> (P x \<and> Q x)) \<Longrightarrow>
   length (filter P xs) + length (filter Q xs) = length (filter (\<lambda>x. P x \<or> Q x) xs)"
  by (induction xs) auto

lemma fold_decrement:
  "fold (\<lambda>v d'. decrement d' v) vs d w = d w - count_list vs w"
  by (induction vs arbitrary: d) (auto simp: decrement_def)

lemma count_list_adjacency:
  "count_list (adjacency conns u) w
     = length (filter (\<lambda>c. source_block_id c = u \<and> target_block_id c = w) conns)"
  by (induction conns) (auto simp: adjacency_def)

lemma release_apply:
  "release conns level indeg w
     = indeg w - (\<Sum>u\<leftarrow>level.
         length (filter (\<lambda>c. source_block_id c = u \<and> target_block_id c = w) conns))"
  unfolding release_def
  by (induction level arbitrary: indeg) (simp_all add: fold_decrement count_list_adjacency)

lemma sum_list_edges_from_level:
  "distinct level \<Longrightarrow>
   (\<Sum>u\<leftarrow>level. length (filter (\<lambda>c. source_block_id c = u \<and> target_block_id c = w) conns))
     = pending_in_degree conns (set level) w"
proof (induction level)
  case Nil
  then show ?case by (simp add: pending_in_degree_def)
next
  case (Cons u level)
  have "length (filter (\<lambda>c. source_block_id c = u \<and> target_block_id c = w) conns)
        + length (filter (\<lambda>c. target_block_id c = w \<and> source_block_id c \<in> set level) conns)
      = length (filter (\<lambda>c. (source_block_id c = u \<and> target_block_id c = w)
          \<or> (target_block_id c = w \<and> source_block_id c \<in> set level)) conns)"
    using Cons.prems by (intro length_filter_disjoint_or) auto
  also have "\<dots> = length (filter (\<lambda>c. target_block_id c = w
          \<and> source_block_id c \<in> set (u # level)) conns)"
    by (rule arg_cong [where f = length], rule filter_cong) auto
  finally show ?case
    using Cons by (simp add: pending_in_degree_def)
qed

lemma pending_in_degree_split:
  assumes "L \<inter> R' = {}"
  shows "pending_in_degree conns (L \<union> R') v
       = pending_in_degree conns L v + pending_in_degree conns R' v"
proof -
  have "length (filter (\<lambda>c. target_block_id c = v \<and> source_block_id c \<in> L) conns)
        + length (filter (\<lambda>c. target_block_id c = v \<and> source_block_id c \<in> R') conns)
      = length (filter (\<lambda>c. (target_block_id c = v \<and> source_block_id c \<in> L)
          \<or> (target_block_id c = v \<and> source_block_id c \<in> R')) conns)"
    using assms by (intro length_filter_disjoint_or) auto
  also have "\<dots> = length (filter (\<lambda>c. target_block_id c = v
          \<and> source_block_id c \<in> L \<union> R') conns)"
    by (rule arg_cong [where f = length], rule filter_cong) auto
  finally show ?thesis
    by (simp add: pending_in_degree_def)
qed

lemma release_keeps_invariant:
  assumes "distinct remaining"
    and inv: "\<forall>v \<in> set remaining. indeg v = pending_in_degree conns (set remaining) v"
    and v: "v \<in> set (filter (\<lambda>v. indeg v \<noteq> 0) remaining)"
  shows "release conns (filter (\<lambda>v. indeg v = 0) remaining) indeg v
       = pending_in_degree conns (set (filter (\<lambda>v. indeg v \<noteq> 0) remaining)) v"
proof -
  let ?level = "filter (\<lambda>v. indeg v = 0) remaining"
  let ?rest = "filter (\<lambda>v. indeg v \<noteq> 0) remaining"
  have parts: "set remaining = set ?level \<union> set ?rest" "set ?level \<inter> set ?rest = {}"
    by auto
  from v inv have "indeg v = pending_in_degree conns (set remaining) v"
    by simp
  also have "\<dots> = pending_in_degree conns (set ?level) v + pending_in_degree conns (set ?rest) v"
    unfolding parts(1) by (rule pending_in_degree_split) (rule parts(2))
  finally have "indeg v - pending_in_degree conns (set ?level) v
      = pending_in_degree conns (set ?rest) v"
    by simp
  moreover have "distinct ?level"
    using assms(1) by simp
  ultimately show ?thesis
    by (simp add: release_apply sum_list_edges_from_level)
qed

lemma acyclic_has_ready_block:
  assumes "acyclic (edge_rel conns)" and "remaining \<noteq> []"
  shows "\<exists>z \<in> set remaining. pending_in_degree conns (set remaining) z = 0"
proof -
  have "finite (edge_rel conns)"
    by (simp add: edge_rel_def)
  then have "wf (edge_rel conns)"
    using assms(1) by (rule finite_acyclic_wf)
  moreover from assms(2) have "hd remaining \<in> set remaining"
    by simp
  ultimately obtain z where z: "z \<in> set remaining"
    and least: "\<And>y. (y, z) \<in> edge_rel conns \<Longrightarrow> y \<notin> set remaining"
    by (rule wfE_min) blast
  have "\<forall>c \<in> set conns. \<not> (target_block_id c = z \<and> source_block_id c \<in> set remaining)"
  proof (intro ballI notI)
    fix c assume c: "c \<in> set conns"
      and "target_block_id c = z \<and> source_block_id c \<in> set remaining"
    then have "(source_block_id c, z) \<in> edge_rel conns" "source_block_id c \<in> set remaining"
      by (auto simp: edge_rel_def)
    with least show False by blast
  qed
  then have "pending_in_degree conns (set remaining) z = 0"
    by (simp add: pending_in_degree_def filter_empty_conv)
  with z show ?thesis by blast
qed

lemma level_index_Some:
  "v \<in> set (concat ls) \<Longrightarrow> \<exists>j. level_index ls v = Some j"
  by (induction ls) auto


lemma levels_from_correct:
  assumes "acyclic (edge_rel conns)" and "distinct remaining"
    and "\<forall>v \<in> set remaining. indeg v = pending_in_degree conns (set remaining) v"
  shows "\<exists>ls. levels_from conns remaining indeg = Inr ls
           \<and> distinct (concat ls) \<and> set (concat ls) = set remaining
           \<and> (\<forall>c \<in> set conns.
                source_block_id c \<in> set remaining \<and> target_block_id c \<in> set remaining \<longrightarrow>
                (\<exists>i j. level_index ls (source_block_id c) = Some i
                     \<and> level_index ls (target_block_id c) = Some j \<and> i < j))"
  using assms
proof (induction conns remaining indeg rule: levels_from.induct)
  case (1 conns remaining indeg)
  let ?level = "filter (\<lambda>v. indeg v = 0) remaining"
  let ?rest = "filter (\<lambda>v. indeg v \<noteq> 0) remaining"
  show ?case
  proof (cases "remaining = []")
    case True
    then show ?thesis
      by (simp add: levels_from.simps)
  next
    case False
    from acyclic_has_ready_block [OF "1.prems"(1) False] "1.prems"(3)
    have ready: "?level \<noteq> []"
      by (auto simp: filter_empty_conv)
    have "distinct ?rest"
      using "1.prems"(2) by simp
    moreover have "\<forall>v \<in> set ?rest.
        release conns ?level indeg v = pending_in_degree conns (set ?rest) v"
      using release_keeps_invariant [OF "1.prems"(2,3)] by blast
    ultimately obtain ls where
      run: "levels_from conns ?rest (release conns ?level indeg) = Inr ls"
      and dist: "distinct (concat ls)" and elems: "set (concat ls) = set ?rest"
      and order: "\<forall>c \<in> set conns.
          source_block_id c \<in> set ?rest \<and> target_block_id c \<in> set ?rest \<longrightarrow>
          (\<exists>i j. level_index ls (source_block_id c) = Some i
               \<and> level_index ls (target_block_id c) = Some j \<and> i < j)"
      using "1.IH" [OF False ready "1.prems"(1)] by blast
    have result: "levels_from conns remaining indeg = Inr (?level # ls)"
      using False ready run by (subst levels_from.simps) simp
    have "distinct (concat (?level # ls))"
      using dist elems "1.prems"(2) by auto
    moreover have "set (concat (?level # ls)) = set remaining"
      using elems by auto
    moreover have "\<exists>i j. level_index (?level # ls) (source_block_id c) = Some i
          \<and> level_index (?level # ls) (target_block_id c) = Some j \<and> i < j"
      if c: "c \<in> set conns" and src: "source_block_id c \<in> set remaining"
        and tgt: "target_block_id c \<in> set remaining" for c
    proof -
      from c src have "c \<in> set (filter (\<lambda>c'. target_block_id c' = target_block_id c
          \<and> source_block_id c' \<in> set remaining) conns)"
        by simp
      then have "pending_in_degree conns (set remaining) (target_block_id c) \<noteq> 0"
        unfolding pending_in_degree_def by (metis length_0_conv empty_iff empty_set)
      with tgt "1.prems"(3) have later: "target_block_id c \<in> set ?rest"
        by simp
      then have not_now: "target_block_id c \<notin> set ?level"
        by simp
      from later elems obtain j where j: "level_index ls (target_block_id c) = Some j"
        using level_index_Some by blast
      show ?thesis
      proof (cases "source_block_id c \<in> set ?level")
        case True
        with not_now j show ?thesis by simp
      next
        case False
        with src have "source_block_id c \<in> set ?rest"
          by simp
        with order c later obtain i j' where
          "level_index ls (source_block_id c) = Some i"
          "level_index ls (target_block_id c) = Some j'" "i < j'"
          by blast
        with False not_now show ?thesis by simp
      qed
    qed
    ultimately show ?thesis
      using result by blast
  qed
qed

lemma in_degree_initial:
  assumes "\<not> list_ex (dangling ids) conns"
  shows "in_degree conns v = pending_in_degree conns (set ids) v"
proof -
  from assms have "\<forall>c \<in> set conns. source_block_id c \<in> set ids"
    by (auto simp: list_ex_iff dangling_def)
  then have "filter (\<lambda>c. target_block_id c = v) conns
      = filter (\<lambda>c. target_block_id c = v \<and> source_block_id c \<in> set ids) conns"
    by (intro filter_cong) auto
  then show ?thesis
    by (simp add: in_degree_def pending_in_degree_def)
qed

text \<open>
  Claim C1. Take a workflow graph: blocks with distinct ids and connections that each
  join two blocks of the list. When the graph is acyclic and has a respond-kind block,
  \<open>plan\<close> returns levels (it is a total function, and here its result is not an error);
  the concatenation of the levels contains every block id, each exactly once; and for
  every connection the index of the level of its source is strictly less than the index
  of the level of its target.
\<close>

theorem plan_levels:
  assumes "distinct (map block_id blocks)"
    and "\<not> list_ex (dangling (map block_id blocks)) connections"
    and "acyclic (edge_rel connections)"
    and "list_ex is_respond blocks"
  shows "\<exists>levels. plan blocks connections = Inr levels
           \<and> distinct (concat levels)
           \<and> set (concat levels) = set (map block_id blocks)
           \<and> (\<forall>c \<in> set connections.
                \<exists>i j. level_index levels (source_block_id c) = Some i
                    \<and> level_index levels (target_block_id c) = Some j \<and> i < j)"
proof -
  let ?ids = "map block_id blocks"
  have ends: "\<forall>c \<in> set connections.
      source_block_id c \<in> set ?ids \<and> target_block_id c \<in> set ?ids"
    using assms(2) by (auto simp: list_ex_iff dangling_def)
  have "\<forall>v \<in> set ?ids. in_degree connections v = pending_in_degree connections (set ?ids) v"
    using in_degree_initial [OF assms(2)] by blast
  from levels_from_correct [OF assms(3) assms(1) this]
  obtain ls where run: "levels_from connections ?ids (in_degree connections) = Inr ls"
    and dist: "distinct (concat ls)" and elems: "set (concat ls) = set ?ids"
    and order: "\<forall>c \<in> set connections.
        source_block_id c \<in> set ?ids \<and> target_block_id c \<in> set ?ids \<longrightarrow>
        (\<exists>i j. level_index ls (source_block_id c) = Some i
             \<and> level_index ls (target_block_id c) = Some j \<and> i < j)"
    by blast
  have "plan blocks connections = Inr ls"
    using assms(2,4) run by (simp add: plan_def)
  moreover from order ends have "\<forall>c \<in> set connections.
      \<exists>i j. level_index ls (source_block_id c) = Some i
          \<and> level_index ls (target_block_id c) = Some j \<and> i < j"
    by blast
  ultimately show ?thesis
    using dist elems by blast
qed

theorem plan_levels_witness:
  "plan readme_blocks readme_connections = Inr [[''in''], [''db'', ''api''], [''tr''], [''out'']]
   \<and> (\<exists>levels. plan readme_blocks readme_connections = Inr levels
        \<and> distinct (concat levels)
        \<and> set (concat levels) = set (map block_id readme_blocks)
        \<and> (\<forall>c \<in> set readme_connections.
             \<exists>i j. level_index levels (source_block_id c) = Some i
                 \<and> level_index levels (target_block_id c) = Some j \<and> i < j))"
proof -
  have ids: "distinct (map block_id readme_blocks)"
    by (simp add: readme_blocks_def plain_block_def)
  have ends: "\<not> list_ex (dangling (map block_id readme_blocks)) readme_connections"
    by (simp add: readme_blocks_def readme_connections_def plain_block_def
        plain_connection_def dangling_def)
  have acyc: "acyclic (edge_rel readme_connections)"
    by code_simp
  have resp: "list_ex is_respond readme_blocks"
    by (simp add: readme_blocks_def plain_block_def is_respond_def)
  have run: "plan readme_blocks readme_connections
      = Inr [[''in''], [''db'', ''api''], [''tr''], [''out'']]"
    by code_simp
  from plan_levels [OF ids ends acyc resp] run show ?thesis
    by blast
qed

end
